theory Spec2Isabelle
  imports Complex_Main
begin

section \<open>JavaScript numbers and optional values\<close>

text \<open>
  The calculator computes with JavaScript numbers. A number is modelled as either the
  not-a-number value or a finite value, and a finite value is an exact real: rounding to
  binary64, signed zeros and overflow to an infinity are outside the model. The value
  \<open>undefined\<close> of an optional number is \<open>None\<close>.
\<close>

datatype jsnum = NaN | Num real

text \<open>\<open>ToNumber\<close>: what arithmetic and \<open>Math.min\<close>/\<open>Math.max\<close> make of an operand;
  \<open>undefined\<close> becomes \<open>NaN\<close>.\<close>

definition ToNumber :: "jsnum option \<Rightarrow> jsnum" where
  "ToNumber v = (case v of None \<Rightarrow> NaN | Some n \<Rightarrow> n)"

text \<open>The operator \<open>??\<close>: the default replaces \<open>undefined\<close> only (a \<open>NaN\<close> stays).\<close>

definition nullish :: "'a option \<Rightarrow> 'a \<Rightarrow> 'a" where
  "nullish v d = (case v of None \<Rightarrow> d | Some x \<Rightarrow> x)"

fun jadd :: "jsnum \<Rightarrow> jsnum \<Rightarrow> jsnum" where
  "jadd (Num a) (Num b) = Num (a + b)"
| "jadd _ _ = NaN"

fun jsub :: "jsnum \<Rightarrow> jsnum \<Rightarrow> jsnum" where
  "jsub (Num a) (Num b) = Num (a - b)"
| "jsub _ _ = NaN"

fun jmul :: "jsnum \<Rightarrow> jsnum \<Rightarrow> jsnum" where
  "jmul (Num a) (Num b) = Num (a * b)"
| "jmul _ _ = NaN"

text \<open>Division. A zero divisor would give an infinity (or \<open>NaN\<close> for \<open>0 / 0\<close>) in
  JavaScript; infinities are outside the model and the case is mapped to \<open>NaN\<close>. The
  program's only divisor is \<open>final || 1\<close>, which is never zero (\<open>orOne_nonzero\<close> below).\<close>

fun jdiv :: "jsnum \<Rightarrow> jsnum \<Rightarrow> jsnum" where
  "jdiv (Num a) (Num b) = (if b = 0 then NaN else Num (a / b))"
| "jdiv _ _ = NaN"

fun Math_max :: "jsnum \<Rightarrow> jsnum \<Rightarrow> jsnum" where
  "Math_max (Num a) (Num b) = Num (max a b)"
| "Math_max _ _ = NaN"

fun Math_min :: "jsnum \<Rightarrow> jsnum \<Rightarrow> jsnum" where
  "Math_min (Num a) (Num b) = Num (min a b)"
| "Math_min _ _ = NaN"

text \<open>The comparisons \<open><=\<close>, \<open>>=\<close> and \<open><\<close>: false as soon as an operand is \<open>NaN\<close>.\<close>

fun jle :: "jsnum \<Rightarrow> jsnum \<Rightarrow> bool" where
  "jle (Num a) (Num b) = (a \<le> b)"
| "jle _ _ = False"

fun jge :: "jsnum \<Rightarrow> jsnum \<Rightarrow> bool" where
  "jge (Num a) (Num b) = (a \<ge> b)"
| "jge _ _ = False"

fun jlt :: "jsnum \<Rightarrow> jsnum \<Rightarrow> bool" where
  "jlt (Num a) (Num b) = (a < b)"
| "jlt _ _ = False"

text \<open>\<open>x || 1\<close> on a number: \<open>0\<close> and \<open>NaN\<close> are falsy.\<close>

fun orOne :: "jsnum \<Rightarrow> jsnum" where
  "orOne NaN = Num 1"
| "orOne (Num a) = (if a = 0 then Num 1 else Num a)"

section \<open>Platform-independent utilities\<close>

datatype DiscountMode = Amount | Percent

text \<open>\<open>clamp = (n, min, max) => Math.min(max, Math.max(min, n))\<close>. The callers pass state
  values that may still be \<open>undefined\<close>, so every argument is optional here.\<close>

definition clamp :: "jsnum option \<Rightarrow> jsnum option \<Rightarrow> jsnum option \<Rightarrow> jsnum" where
  "clamp n mn mx = Math_min (ToNumber mx) (Math_max (ToNumber mn) (ToNumber n))"

definition step2AfterFirstDiscount ::
  "jsnum option \<Rightarrow> DiscountMode \<Rightarrow> jsnum option \<Rightarrow> jsnum option \<Rightarrow> jsnum" where
  "step2AfterFirstDiscount basePrice mode amount percent =
     (if mode = Amount then
        (let amt = clamp (Some (nullish amount (Num 0))) (Some (Num 0)) basePrice
         in Math_max (Num 0) (jsub (ToNumber basePrice) amt))
      else
        (let p = clamp (Some (nullish percent (Num 0))) (Some (Num 0)) (Some (Num 100))
         in jmul (ToNumber basePrice) (jsub (Num 1) (jdiv p (Num 100)))))"

definition applyExtraPercent :: "jsnum \<Rightarrow> jsnum option \<Rightarrow> jsnum" where
  "applyExtraPercent price extraPercent =
     jmul price (jsub (Num 1) (jdiv (clamp extraPercent (Some (Num 0)) (Some (Num 100))) (Num 100)))"

definition simpleRefund10 :: "jsnum \<Rightarrow> jsnum" where
  "simpleRefund10 final = jmul final (Num 0.1)"

definition kreamNetFromPrice :: "jsnum option \<Rightarrow> jsnum option" where
  "kreamNetFromPrice price =
     (case price of None \<Rightarrow> None | Some p \<Rightarrow> Some (jsub (jmul p (Num 0.956)) (Num 5500)))"

definition kreamFeeFromPrice :: "jsnum option \<Rightarrow> jsnum option \<Rightarrow> jsnum option" where
  "kreamFeeFromPrice price net =
     (case (price, net) of (Some p, Some n) \<Rightarrow> Some (jsub p n) | _ \<Rightarrow> None)"

definition poizonNetFromPrice :: "jsnum option \<Rightarrow> jsnum option" where
  "poizonNetFromPrice price =
     (case price of
        None \<Rightarrow> None
      | Some p \<Rightarrow>
          if jle p (Num 150000) then Some (jsub p (Num 15000))
          else if jge p (Num 450000) then Some (jsub p (Num 45000))
          else Some (jmul p (Num 0.9)))"

definition poizonFeeFromPrice :: "jsnum option \<Rightarrow> jsnum option \<Rightarrow> jsnum option" where
  "poizonFeeFromPrice price net =
     (case (price, net) of (Some p, Some n) \<Rightarrow> Some (jsub p n) | _ \<Rightarrow> None)"

section \<open>Text\<close>

text \<open>
  A JavaScript string is a sequence of UTF-16 code units; \<open>str\<close> writes an ASCII literal.
\<close>

type_synonym jsstring = "nat list"

definition str :: "string \<Rightarrow> jsstring" where
  "str s = map of_char s"




text \<open>The decimal digits of a non-negative integer, most significant first.\<close>

fun dec :: "nat \<Rightarrow> jsstring" where
  "dec n = (if n < 10 then [48 + n] else dec (n div 10) @ [48 + n mod 10])"

declare dec.simps [simp del]

text \<open>Thousands grouping, on the digits least significant first.\<close>

fun commas :: "jsstring \<Rightarrow> jsstring" where
  "commas (a # b # c # d # ds) = a # b # c # 44 # commas (d # ds)"
| "commas ds = ds"

text \<open>\<open>new Intl.NumberFormat("ko-KR").format(n)\<close> on an integer: decimal digits in
  groups of three separated by commas, a minus sign first when negative.\<close>

definition Intl_format :: "nat \<Rightarrow> jsstring" where
  "Intl_format n = rev (commas (rev (dec n)))"

definition Intl_format_int :: "int \<Rightarrow> jsstring" where
  "Intl_format_int i = (if i < 0 then 45 # Intl_format (nat (- i)) else Intl_format (nat i))"

text \<open>\<open>Math.round\<close>: the nearest integer, a half rounding up.\<close>

definition Math_round :: "real \<Rightarrow> int" where
  "Math_round r = \<lfloor>r + 1 / 2\<rfloor>"

text \<open>The currency suffix of \<open>toKrw\<close>, the single code unit U+C6D0.\<close>

definition won :: jsstring where
  "won = [50896]"

text \<open>\<open>toKrw\<close>: \<open>isNaN(n)\<close> holds of \<open>NaN\<close> and of \<open>undefined\<close>. \<open>Math.round\<close> of a value in
  \<open>[-0.5, 0)\<close> is the negative zero, which the formatter prints as \<open>-0\<close>.\<close>

definition toKrw :: "jsnum option \<Rightarrow> jsstring" where
  "toKrw n =
     (case ToNumber n of
        NaN \<Rightarrow> str ''-''
      | Num r \<Rightarrow>
          (if r < 0 \<and> Math_round r = 0 then str ''-0'' else Intl_format_int (Math_round r)) @ won)"





text \<open>\<open>String.prototype.trim\<close>: white space and line terminators are removed at both
  ends (tab, LF, VT, FF, CR, space, U+00A0, U+1680, U+2000 to U+200A, U+2028, U+2029,
  U+202F, U+205F, U+3000, U+FEFF).\<close>

definition isWhiteSpace :: "nat \<Rightarrow> bool" where
  "isWhiteSpace c =
     (c \<in> {9, 10, 11, 12, 13, 32, 160, 5760, 8232, 8233, 8239, 8287, 12288, 65279}
      \<or> (8192 \<le> c \<and> c \<le> 8202))"

definition trim :: "jsstring \<Rightarrow> jsstring" where
  "trim v = rev (dropWhile isWhiteSpace (rev (dropWhile isWhiteSpace v)))"

section \<open>The component's state and derived values\<close>

record HistoryItem =
  h_id :: jsstring
  h_basePrice :: "jsnum option"
  h_discountMode :: DiscountMode
  h_baseDiscountAmount :: "jsnum option"
  h_baseDiscountPercent :: "jsnum option"
  h_extra :: jsnum
  h_memo :: "jsstring option"
  h_final :: jsnum
  h_refund10 :: jsnum
  h_kreamPrice :: "jsnum option"
  h_kreamFee :: "jsnum option"
  h_kreamNet :: "jsnum option"
  h_poizonPrice :: "jsnum option"
  h_poizonFee :: "jsnum option"
  h_poizonNet :: "jsnum option"
  h_created_at :: "jsstring option"

text \<open>The \<open>useState\<close> cells of \<open>OutletDiscountCalculator\<close>. The numeric inputs start
  \<open>undefined\<close>.\<close>

record ui_state =
  basePrice :: "jsnum option"
  discountMode :: DiscountMode
  baseDiscountAmount :: "jsnum option"
  baseDiscountPercent :: "jsnum option"
  extra :: "jsnum option"
  memo :: jsstring
  history :: "HistoryItem list"
  kreamPrice :: "jsnum option"
  poizonPrice :: "jsnum option"
  loadingHistory :: bool
  kreamPriceInput :: jsstring
  poizonPriceInput :: jsstring

definition initial_state :: ui_state where
  "initial_state =
     \<lparr> basePrice = None, discountMode = Amount, baseDiscountAmount = None,
       baseDiscountPercent = None, extra = None, memo = [], history = [],
       kreamPrice = None, poizonPrice = None, loadingHistory = False,
       kreamPriceInput = [], poizonPriceInput = [] \<rparr>"

text \<open>The values the component derives on every render (\<open>useMemo\<close> only caches them).\<close>

definition step2 :: "ui_state \<Rightarrow> jsnum" where
  "step2 s = step2AfterFirstDiscount (basePrice s) (discountMode s)
               (baseDiscountAmount s) (baseDiscountPercent s)"

definition final :: "ui_state \<Rightarrow> jsnum" where
  "final s = applyExtraPercent (step2 s) (extra s)"

definition refund10 :: "ui_state \<Rightarrow> jsnum" where
  "refund10 s = simpleRefund10 (final s)"

definition afterRefund10 :: "ui_state \<Rightarrow> jsnum" where
  "afterRefund10 s = Math_max (Num 0) (jsub (final s) (refund10 s))"

definition kreamNet :: "ui_state \<Rightarrow> jsnum option" where
  "kreamNet s = kreamNetFromPrice (kreamPrice s)"

definition kreamFee :: "ui_state \<Rightarrow> jsnum option" where
  "kreamFee s = kreamFeeFromPrice (kreamPrice s) (kreamNet s)"

definition poizonNet :: "ui_state \<Rightarrow> jsnum option" where
  "poizonNet s = poizonNetFromPrice (poizonPrice s)"

definition poizonFee :: "ui_state \<Rightarrow> jsnum option" where
  "poizonFee s = poizonFeeFromPrice (poizonPrice s) (poizonNet s)"

section \<open>Margins as displayed\<close>

text \<open>
  Each margin cell shows the margin and the margin percent, or the placeholder when the
  platform's net is \<open>undefined\<close> (\<open>None\<close> here). The pair holds the two numbers that the
  template formats (\<open>krw\<close> of the first, \<open>toFixed(1)\<close> of the second).
\<close>

text \<open>Results card and input card, Poizon:
  \<open>poizonNet - final + refund10\<close> and \<open>(poizonNet - final + refund10) / (final || 1) * 100\<close>.\<close>

definition poizonMarginCard :: "ui_state \<Rightarrow> (jsnum \<times> jsnum) option" where
  "poizonMarginCard s =
     (case poizonNet s of
        None \<Rightarrow> None
      | Some n \<Rightarrow>
          Some (jadd (jsub n (final s)) (refund10 s),
                jmul (jdiv (jadd (jsub n (final s)) (refund10 s)) (orOne (final s))) (Num 100)))"

text \<open>Results card and input card, Kream:
  \<open>kreamNet - final\<close> and \<open>(kreamNet - final) / (final || 1) * 100\<close>.\<close>

definition kreamMarginCard :: "ui_state \<Rightarrow> (jsnum \<times> jsnum) option" where
  "kreamMarginCard s =
     (case kreamNet s of
        None \<Rightarrow> None
      | Some n \<Rightarrow>
          Some (jsub n (final s),
                jmul (jdiv (jsub n (final s)) (orOne (final s))) (Num 100)))"

text \<open>History row, Kream:
  \<open>h.kreamNet - h.final\<close> and \<open>((h.kreamNet - h.final) / (h.final || 1)) * 100\<close>.\<close>

definition kreamMarginRow :: "HistoryItem \<Rightarrow> (jsnum \<times> jsnum) option" where
  "kreamMarginRow h =
     (case h_kreamNet h of
        None \<Rightarrow> None
      | Some n \<Rightarrow>
          Some (jsub n (h_final h),
                jmul (jdiv (jsub n (h_final h)) (orOne (h_final h))) (Num 100)))"

text \<open>History row, Poizon:
  \<open>h.poizonNet - h.final\<close> and \<open>((h.poizonNet - h.final) / (h.final || 1)) * 100\<close>.\<close>

definition poizonMarginRow :: "HistoryItem \<Rightarrow> (jsnum \<times> jsnum) option" where
  "poizonMarginRow h =
     (case h_poizonNet h of
        None \<Rightarrow> None
      | Some n \<Rightarrow>
          Some (jsub n (h_final h),
                jmul (jdiv (jsub n (h_final h)) (orOne (h_final h))) (Num 100)))"

text \<open>The scenario of the specification: base price 100,000, amount-mode discount 20,000,
  extra discount 10 percent; with listing prices 65,000 (Kream) and 66,000 (Poizon).\<close>

definition scenario :: ui_state where
  "scenario = initial_state
     \<lparr> basePrice := Some (Num 100000), baseDiscountAmount := Some (Num 20000),
       extra := Some (Num 10), kreamPrice := Some (Num 65000),
       poizonPrice := Some (Num 66000) \<rparr>"

definition scenario_no_extra :: ui_state where
  "scenario_no_extra = scenario \<lparr> extra := None \<rparr>"

section \<open>The history store\<close>

text \<open>
  A row of the table \<open>outlet_history\<close>; a \<open>null\<close> column is \<open>None\<close>. The store fills
  \<open>created_at\<close>.
\<close>

record row =
  r_id :: jsstring
  r_memo :: "jsstring option"
  r_base_price :: "jsnum option"
  r_discount_mode :: DiscountMode
  r_base_discount_amount :: "jsnum option"
  r_base_discount_percent :: "jsnum option"
  r_extra :: jsnum
  r_final :: jsnum
  r_refund10 :: jsnum
  r_kream_price :: "jsnum option"
  r_kream_net :: "jsnum option"
  r_poizon_price :: "jsnum option"
  r_poizon_net :: "jsnum option"
  r_created_at :: "jsstring option"

text \<open>\<open>NotConfigured\<close> is the error the three operations make themselves
  (\<open>new Error\<close> with the message "Supabase not configured", in Korean); \<open>StoreError\<close> is
  an error the client reports.\<close>

datatype db_error = NotConfigured | StoreError jsstring

text \<open>
  The client of the external library: what the store answers to an insert, to a select
  of the newest rows up to a limit, and to a delete by id. The library reports a failure
  in the \<open>error\<close> field of its answer.
\<close>

record supabase_client =
  sb_insert :: "row \<Rightarrow> db_error option"
  sb_select :: "nat \<Rightarrow> row list option \<times> db_error option"
  sb_delete :: "jsstring \<Rightarrow> db_error option"

text \<open>A request sent to the store.\<close>

datatype request = Insert row | Select nat | Delete jsstring

text \<open>A configuration value is a string or \<open>undefined\<close>; the empty string is falsy too.\<close>

definition truthy :: "jsstring option \<Rightarrow> bool" where
  "truthy v = (case v of None \<Rightarrow> False | Some x \<Rightarrow> x \<noteq> [])"

text \<open>\<open>supabase = (SUPABASE_URL && SUPABASE_ANON_KEY) ? createClient(...) : null\<close>, with the
  library's \<open>createClient\<close> as a parameter.\<close>

definition supabase ::
  "(jsstring \<Rightarrow> jsstring \<Rightarrow> supabase_client) \<Rightarrow> jsstring option \<Rightarrow> jsstring option
     \<Rightarrow> supabase_client option" where
  "supabase createClient url key =
     (case (url, key) of
        (Some u, Some k) \<Rightarrow> if truthy url \<and> truthy key then Some (createClient u k) else None
      | _ \<Rightarrow> None)"

definition insert_payload :: "HistoryItem \<Rightarrow> row" where
  "insert_payload item =
     \<lparr> r_id = h_id item, r_memo = h_memo item, r_base_price = h_basePrice item,
       r_discount_mode = h_discountMode item,
       r_base_discount_amount = h_baseDiscountAmount item,
       r_base_discount_percent = h_baseDiscountPercent item,
       r_extra = h_extra item, r_final = h_final item, r_refund10 = h_refund10 item,
       r_kream_price = h_kreamPrice item, r_kream_net = h_kreamNet item,
       r_poizon_price = h_poizonPrice item, r_poizon_net = h_poizonNet item,
       r_created_at = None \<rparr>"

definition mapped :: "row \<Rightarrow> HistoryItem" where
  "mapped r =
     \<lparr> h_id = r_id r, h_basePrice = r_base_price r, h_discountMode = r_discount_mode r,
       h_baseDiscountAmount = r_base_discount_amount r,
       h_baseDiscountPercent = r_base_discount_percent r,
       h_extra = r_extra r, h_memo = r_memo r, h_final = r_final r,
       h_refund10 = r_refund10 r,
       h_kreamPrice = r_kream_price r, h_kreamFee = None, h_kreamNet = r_kream_net r,
       h_poizonPrice = r_poizon_price r, h_poizonFee = None, h_poizonNet = r_poizon_net r,
       h_created_at = r_created_at r \<rparr>"

text \<open>Each operation returns its result and the requests it sent to the store.\<close>

definition dbInsertHistory ::
  "supabase_client option \<Rightarrow> HistoryItem \<Rightarrow> db_error option \<times> request list" where
  "dbInsertHistory sb item =
     (case sb of
        None \<Rightarrow> (Some NotConfigured, [])
      | Some c \<Rightarrow> (sb_insert c (insert_payload item), [Insert (insert_payload item)]))"

text \<open>\<open>dbFetchHistory(limit = 50)\<close>: the result is the pair of \<open>data\<close> and \<open>error\<close>.\<close>

definition dbFetchHistory ::
  "supabase_client option \<Rightarrow> nat \<Rightarrow> (HistoryItem list \<times> db_error option) \<times> request list" where
  "dbFetchHistory sb limit =
     (case sb of
        None \<Rightarrow> (([], Some NotConfigured), [])
      | Some c \<Rightarrow>
          (case sb_select c limit of
             (data, Some e) \<Rightarrow> (([], Some e), [Select limit])
           | (data, None) \<Rightarrow> ((map mapped (nullish data []), None), [Select limit])))"

definition dbDeleteHistory ::
  "supabase_client option \<Rightarrow> jsstring \<Rightarrow> db_error option \<times> request list" where
  "dbDeleteHistory sb i =
     (case sb of
        None \<Rightarrow> (Some NotConfigured, [])
      | Some c \<Rightarrow> (sb_delete c i, [Delete i]))"

section \<open>The component's actions\<close>

text \<open>
  What an action reads from its surroundings: the module's \<open>supabase\<close> client, whether a
  \<open>window\<close> object exists, what \<open>crypto.randomUUID()\<close> returns (\<open>None\<close> when the function is
  missing), and the texts of \<open>Date.now()\<close> and \<open>Math.random()\<close>.
\<close>

record env =
  client :: "supabase_client option"
  window_defined :: bool
  randomUUID :: "jsstring option"
  date_now :: jsstring
  math_random :: jsstring

text \<open>What an action does besides updating the state: the alert that the item
  information is empty, a request to the store, a console warning.\<close>

datatype effect = Alert | StoreCall request | WarnSaveFailed db_error | WarnDeleteFailed db_error

text \<open>The initial-load effect. Between the two updates of \<open>loadingHistory\<close> the source has
  the call of \<open>dbFetchHistory(100)\<close> and the update of the history commented out.\<close>

definition initialLoad :: "env \<Rightarrow> ui_state \<Rightarrow> ui_state \<times> effect list" where
  "initialLoad e s =
     (case client e of
        None \<Rightarrow> (s, [])
      | Some c \<Rightarrow> ((s \<lparr> loadingHistory := True \<rparr>) \<lparr> loadingHistory := False \<rparr>, []))"

text \<open>The id of a new record: \<open>crypto.randomUUID()\<close> when it exists, else the text
  \<open>Date.now()\<close>, a hyphen, \<open>Math.random()\<close>.\<close>

definition newId :: "env \<Rightarrow> jsstring" where
  "newId e = (case randomUUID e of Some u \<Rightarrow> u | None \<Rightarrow> date_now e @ [45] @ math_random e)"

definition newItem :: "env \<Rightarrow> ui_state \<Rightarrow> HistoryItem" where
  "newItem e s =
     \<lparr> h_id = newId e,
       h_basePrice = basePrice s,
       h_discountMode = discountMode s,
       h_baseDiscountAmount =
         (if discountMode s = Amount
          then Some (clamp (Some (nullish (baseDiscountAmount s) (Num 0))) (Some (Num 0))
                       (basePrice s))
          else None),
       h_baseDiscountPercent =
         (if discountMode s = Percent
          then Some (clamp (Some (nullish (baseDiscountPercent s) (Num 0))) (Some (Num 0))
                       (Some (Num 100)))
          else None),
       h_extra = clamp (extra s) (Some (Num 0)) (Some (Num 100)),
       h_memo = (if trim (memo s) = [] then None else Some (trim (memo s))),
       h_final = final s,
       h_refund10 = refund10 s,
       h_kreamPrice = kreamPrice s,
       h_kreamFee = kreamFee s,
       h_kreamNet = kreamNet s,
       h_poizonPrice = poizonPrice s,
       h_poizonFee = poizonFee s,
       h_poizonNet = poizonNet s,
       h_created_at = None \<rparr>"

definition saveHistory :: "env \<Rightarrow> ui_state \<Rightarrow> ui_state \<times> effect list" where
  "saveHistory e s =
     (let memoTrim = trim (memo s)
      in if memoTrim = [] then (s, if window_defined e then [Alert] else [])
         else
           (let item = newItem e s;
                s' = (s \<lparr> history := item # history s \<rparr>) \<lparr> memo := [] \<rparr>
            in (s',
                case client e of
                  None \<Rightarrow> []
                | Some c \<Rightarrow>
                    (case dbInsertHistory (client e) item of
                       (err, reqs) \<Rightarrow>
                         map StoreCall reqs
                         @ (case err of None \<Rightarrow> [] | Some x \<Rightarrow> [WarnSaveFailed x])))))"

definition deleteHistory :: "env \<Rightarrow> jsstring \<Rightarrow> ui_state \<Rightarrow> ui_state \<times> effect list" where
  "deleteHistory e i s =
     (s \<lparr> history := filter (\<lambda>h. h_id h \<noteq> i) (history s) \<rparr>,
      case client e of
        None \<Rightarrow> []
      | Some c \<Rightarrow>
          (case dbDeleteHistory (client e) i of
             (err, reqs) \<Rightarrow>
               map StoreCall reqs
               @ (case err of None \<Rightarrow> [] | Some x \<Rightarrow> [WarnDeleteFailed x])))"

definition clearHistory :: "ui_state \<Rightarrow> ui_state" where
  "clearHistory s = s \<lparr> history := [] \<rparr>"

text \<open>A browser without a configured store, and one with a store that holds one row.\<close>

definition local_env :: env where
  "local_env =
     \<lparr> client = None, window_defined = True, randomUUID = Some (str ''id-1''),
       date_now = str ''1700000000000'', math_random = str ''0.5'' \<rparr>"

definition stored_row :: row where
  "stored_row =
     \<lparr> r_id = str ''id-0'', r_memo = Some (str ''AF1''), r_base_price = Some (Num 100000),
       r_discount_mode = Amount, r_base_discount_amount = Some (Num 20000),
       r_base_discount_percent = None, r_extra = Num 10, r_final = Num 72000,
       r_refund10 = Num 7200, r_kream_price = None, r_kream_net = None,
       r_poizon_price = None, r_poizon_net = None,
       r_created_at = Some (str ''2025-01-01T00:00:00Z'') \<rparr>"

definition stored_client :: supabase_client where
  "stored_client =
     \<lparr> sb_insert = (\<lambda>r. None), sb_select = (\<lambda>n. (Some (take n [stored_row]), None)),
       sb_delete = (\<lambda>i. None) \<rparr>"

definition failing_client :: supabase_client where
  "failing_client =
     \<lparr> sb_insert = (\<lambda>r. Some (StoreError (str ''down''))),
       sb_select = (\<lambda>n. (None, Some (StoreError (str ''down'')))),
       sb_delete = (\<lambda>i. Some (StoreError (str ''down''))) \<rparr>"

definition configured_env :: env where
  "configured_env = local_env \<lparr> client := Some stored_client \<rparr>"

section \<open>First discount\<close>

text \<open>
  Claim C1. For a base price \<open>b \<ge> 0\<close>: in amount mode the first discount returns
  \<open>max 0 (b - c)\<close> where \<open>c\<close> is the amount clamped into \<open>[0, b]\<close>, a missing amount
  counting as \<open>0\<close>; in percent mode it returns \<open>b * (1 - p / 100)\<close> for a percent within
  \<open>[0, 100]\<close>, a percent outside that range being clamped into it first and a missing
  percent counting as \<open>0\<close>.
\<close>

theorem step2AfterFirstDiscount_formula:
  assumes "0 \<le> b"
  shows "step2AfterFirstDiscount (Some (Num b)) Amount (Some (Num a)) pct
           = Num (max 0 (b - min b (max 0 a)))
       \<and> clamp (Some (Num a)) (Some (Num 0)) (Some (Num b)) = Num (min b (max 0 a))
       \<and> 0 \<le> min b (max 0 a) \<and> min b (max 0 a) \<le> b
       \<and> step2AfterFirstDiscount (Some (Num b)) Amount None pct
           = Num (max 0 (b - min b (max 0 0)))
       \<and> (0 \<le> p \<and> p \<le> 100 \<longrightarrow>
            step2AfterFirstDiscount (Some (Num b)) Percent amt (Some (Num p))
              = Num (b * (1 - p / 100)))
       \<and> step2AfterFirstDiscount (Some (Num b)) Percent amt (Some (Num q))
           = Num (b * (1 - min 100 (max 0 q) / 100))
       \<and> step2AfterFirstDiscount (Some (Num b)) Percent amt None
           = Num (b * (1 - 0 / 100))"
  using assms
  by (simp add: step2AfterFirstDiscount_def clamp_def ToNumber_def nullish_def)

theorem step2AfterFirstDiscount_formula_witness:
  "(0::real) \<le> 100000
   \<and> step2AfterFirstDiscount (Some (Num 100000)) Amount (Some (Num 20000)) None = Num 80000
   \<and> step2AfterFirstDiscount (Some (Num 100000)) Amount None None = Num 100000
   \<and> step2AfterFirstDiscount (Some (Num 100000)) Percent None (Some (Num 40)) = Num 60000
   \<and> step2AfterFirstDiscount (Some (Num 100000)) Percent None (Some (Num 250)) = Num 0
   \<and> step2AfterFirstDiscount (Some (Num 100000)) Percent None None = Num 100000"
  using step2AfterFirstDiscount_formula [of 100000 20000 None 40 None 250]
  by simp

section \<open>Tax and the scenario\<close>

lemma scenario_fields:
  "basePrice scenario = Some (Num 100000)" "discountMode scenario = Amount"
  "baseDiscountAmount scenario = Some (Num 20000)" "baseDiscountPercent scenario = None"
  "extra scenario = Some (Num 10)" "kreamPrice scenario = Some (Num 65000)"
  "poizonPrice scenario = Some (Num 66000)" "history scenario = []" "memo scenario = []"
  by (simp_all add: scenario_def initial_state_def)

lemma scenario_step2: "step2 scenario = Num 80000"
  by (simp add: step2_def scenario_fields step2AfterFirstDiscount_def clamp_def
      ToNumber_def nullish_def)

lemma scenario_final: "final scenario = Num 72000"
  by (simp add: final_def scenario_step2 scenario_fields applyExtraPercent_def clamp_def
      ToNumber_def)

text \<open>
  Claim C4. Whatever the final price \<open>f\<close>, the tax amount is \<open>f * 0.1\<close> and the after-tax
  base is \<open>max 0 (f - f * 0.1)\<close>. In the scenario (base price 100000, amount-mode discount
  20000, extra discount 10 percent) the first-discounted price is 80000, the final price
  72000, the tax 7200 and the after-tax base 64800.
\<close>

theorem tax_and_after_tax:
  "simpleRefund10 (Num f) = Num (f * 0.1)
   \<and> (final s = Num f \<longrightarrow>
        refund10 s = Num (f * 0.1) \<and> afterRefund10 s = Num (max 0 (f - f * 0.1)))
   \<and> step2 scenario = Num 80000 \<and> final scenario = Num 72000
   \<and> refund10 scenario = Num 7200 \<and> afterRefund10 scenario = Num 64800"
  by (simp add: simpleRefund10_def refund10_def afterRefund10_def scenario_step2
      scenario_final)

theorem tax_and_after_tax_witness:
  "final scenario = Num 72000 \<and> refund10 scenario = Num (72000 * 0.1)
   \<and> afterRefund10 scenario = Num (max 0 (72000 - 72000 * 0.1))"
  using tax_and_after_tax [of 72000 scenario] by (simp add: scenario_final)

section \<open>Platform settlement\<close>



section \<open>Unknown and defined values\<close>

lemma toKrw_unknown: "toKrw None = str ''-''" "toKrw (Some NaN) = str ''-''"
  by (simp_all add: toKrw_def ToNumber_def)

lemma step2_defined:
  assumes "basePrice s = Some (Num b)" "baseDiscountAmount s \<noteq> Some NaN"
    "baseDiscountPercent s \<noteq> Some NaN"
  shows "\<exists>r. step2 s = Num r \<and> (discountMode s = Amount \<longrightarrow> 0 \<le> r)"
proof (cases "discountMode s")
  case Amount
  show ?thesis
  proof (cases "baseDiscountAmount s")
    case None
    with Amount assms show ?thesis
      by (simp add: step2_def step2AfterFirstDiscount_def clamp_def ToNumber_def nullish_def)
  next
    case (Some v)
    with assms obtain a where "v = Num a" by (cases v) auto
    with Some Amount assms show ?thesis
      by (simp add: step2_def step2AfterFirstDiscount_def clamp_def ToNumber_def nullish_def)
  qed
next
  case Percent
  show ?thesis
  proof (cases "baseDiscountPercent s")
    case None
    with Percent assms show ?thesis
      by (simp add: step2_def step2AfterFirstDiscount_def clamp_def ToNumber_def nullish_def)
  next
    case (Some v)
    with assms obtain a where "v = Num a" by (cases v) auto
    with Some Percent assms show ?thesis
      by (simp add: step2_def step2AfterFirstDiscount_def clamp_def ToNumber_def nullish_def)
  qed
qed

lemma downstream_defined:
  assumes "step2 s = Num r" "extra s = Some (Num e)"
  shows "final s = Num (r * (1 - min 100 (max 0 e) / 100))
       \<and> refund10 s = Num (r * (1 - min 100 (max 0 e) / 100) * 0.1)
       \<and> (\<exists>a. afterRefund10 s = Num a \<and> 0 \<le> a)"
  using assms
  by (simp add: final_def refund10_def afterRefund10_def applyExtraPercent_def clamp_def
      ToNumber_def simpleRefund10_def)

lemma unknown_base:
  "basePrice s = None \<Longrightarrow>
     step2 s = NaN \<and> final s = NaN \<and> refund10 s = NaN \<and> afterRefund10 s = NaN"
  by (simp add: final_def refund10_def afterRefund10_def applyExtraPercent_def clamp_def
      ToNumber_def simpleRefund10_def step2_def step2AfterFirstDiscount_def)

lemma unknown_extra:
  "extra s = None \<Longrightarrow> final s = NaN \<and> refund10 s = NaN \<and> afterRefund10 s = NaN"
  by (cases "step2 s")
    (simp_all add: final_def refund10_def afterRefund10_def applyExtraPercent_def clamp_def
      ToNumber_def simpleRefund10_def)

lemma scenario_no_extra_fields:
  "basePrice scenario_no_extra = Some (Num 100000)" "discountMode scenario_no_extra = Amount"
  "baseDiscountAmount scenario_no_extra = Some (Num 20000)"
  "baseDiscountPercent scenario_no_extra = None" "extra scenario_no_extra = None"
  by (simp_all add: scenario_no_extra_def scenario_fields)

text \<open>
  Claim C5 at a defined price with no extra percent entered: base price 100000,
  amount-mode discount 20000, extra percent missing, as the state is before anything is
  typed into the extra field. The first-discounted price is 80000; the missing extra
  percent is not defaulted, and the final price, the tax and the after-tax base are
  \<open>NaN\<close>, not numbers.
\<close>

theorem missing_extra_is_NaN:
  "basePrice scenario_no_extra = Some (Num 100000)
   \<and> extra scenario_no_extra = None
   \<and> step2 scenario_no_extra = Num 80000
   \<and> applyExtraPercent (Num 80000) None = NaN
   \<and> final scenario_no_extra = NaN
   \<and> refund10 scenario_no_extra = NaN
   \<and> afterRefund10 scenario_no_extra = NaN"
  by (simp add: final_def refund10_def afterRefund10_def simpleRefund10_def step2_def
      scenario_no_extra_fields step2AfterFirstDiscount_def applyExtraPercent_def clamp_def
      ToNumber_def nullish_def)

text \<open>
  The stages on missing and out-of-range inputs. No stage raises: each is a total function
  whose result is a number or \<open>NaN\<close>. A missing base price makes every downstream value \<open>NaN\<close>, a missing extra percent
  makes the final price, the tax and the after-tax base \<open>NaN\<close>, and the display renders
  \<open>NaN\<close> and \<open>undefined\<close> as \<open>-\<close>; a missing listing price leaves the platform's net and
  fee undefined. With a base price that is a number (negative and zero included) and a
  first-discount amount and percent that are numbers or missing (missing counting as 0),
  the first-discounted price is a number, not negative in amount mode; and when the extra
  percent is a number too, it is clamped into \<open>[0, 100]\<close> and the final price, the tax and
  the after-tax base are numbers, the last one not negative.
\<close>

theorem pricing_stages_unknown_or_defined:
  "(basePrice s = None \<longrightarrow>
      step2 s = NaN \<and> final s = NaN \<and> refund10 s = NaN \<and> afterRefund10 s = NaN)
   \<and> (extra s = None \<longrightarrow> final s = NaN \<and> refund10 s = NaN \<and> afterRefund10 s = NaN)
   \<and> toKrw None = str ''-'' \<and> toKrw (Some NaN) = str ''-''
   \<and> (kreamPrice s = None \<longrightarrow> kreamNet s = None \<and> kreamFee s = None)
   \<and> (poizonPrice s = None \<longrightarrow> poizonNet s = None \<and> poizonFee s = None)
   \<and> (basePrice s = Some (Num b) \<and> baseDiscountAmount s \<noteq> Some NaN
        \<and> baseDiscountPercent s \<noteq> Some NaN \<longrightarrow>
        (\<exists>r. step2 s = Num r \<and> (discountMode s = Amount \<longrightarrow> 0 \<le> r)
           \<and> (extra s = Some (Num e) \<longrightarrow>
                final s = Num (r * (1 - min 100 (max 0 e) / 100))
                \<and> refund10 s = Num (r * (1 - min 100 (max 0 e) / 100) * 0.1)
                \<and> (\<exists>a. afterRefund10 s = Num a \<and> 0 \<le> a))))"
proof -
  have defined: "\<exists>r. step2 s = Num r \<and> (discountMode s = Amount \<longrightarrow> 0 \<le> r)
           \<and> (extra s = Some (Num e) \<longrightarrow>
                final s = Num (r * (1 - min 100 (max 0 e) / 100))
                \<and> refund10 s = Num (r * (1 - min 100 (max 0 e) / 100) * 0.1)
                \<and> (\<exists>a. afterRefund10 s = Num a \<and> 0 \<le> a))"
    if h: "basePrice s = Some (Num b)" "baseDiscountAmount s \<noteq> Some NaN"
      "baseDiscountPercent s \<noteq> Some NaN"
  proof -
    from step2_defined [OF h] obtain r
      where r: "step2 s = Num r" "discountMode s = Amount \<longrightarrow> 0 \<le> r" by blast
    from downstream_defined [OF r(1)] r show ?thesis by blast
  qed
  have absent: "(kreamPrice s = None \<longrightarrow> kreamNet s = None \<and> kreamFee s = None)
     \<and> (poizonPrice s = None \<longrightarrow> poizonNet s = None \<and> poizonFee s = None)"
    by (simp add: kreamNet_def kreamFee_def poizonNet_def poizonFee_def kreamNetFromPrice_def
        kreamFeeFromPrice_def poizonNetFromPrice_def poizonFeeFromPrice_def)
  from defined absent unknown_base [of s] unknown_extra [of s] toKrw_unknown
  show ?thesis by blast
qed

theorem pricing_stages_unknown_or_defined_witness:
  "basePrice initial_state = None \<and> extra initial_state = None
   \<and> kreamPrice initial_state = None \<and> poizonPrice initial_state = None
   \<and> step2 initial_state = NaN \<and> final initial_state = NaN
   \<and> kreamNet initial_state = None \<and> poizonFee initial_state = None
   \<and> basePrice scenario = Some (Num 100000) \<and> baseDiscountAmount scenario \<noteq> Some NaN
   \<and> baseDiscountPercent scenario \<noteq> Some NaN \<and> discountMode scenario = Amount
   \<and> extra scenario = Some (Num 10)
   \<and> final scenario = Num 72000 \<and> refund10 scenario = Num 7200"
  using pricing_stages_unknown_or_defined [of initial_state 0 0]
    pricing_stages_unknown_or_defined [of scenario 100000 10]
  by (simp add: scenario_fields scenario_step2 initial_state_def)

section \<open>Parsing and formatting numeric text\<close>






















section \<open>Saving a record\<close>








section \<open>The stored record\<close>

lemma clamp_percent_range:
  "v \<noteq> Some NaN \<Longrightarrow>
     \<exists>p. clamp (Some (nullish v (Num 0))) (Some (Num 0)) (Some (Num 100)) = Num p
        \<and> 0 \<le> p \<and> p \<le> 100"
proof (cases v)
  case None
  then show ?thesis by (simp add: clamp_def ToNumber_def nullish_def)
next
  case (Some x)
  assume "v \<noteq> Some NaN"
  with Some obtain a where "x = Num a" by (cases x) auto
  with Some show ?thesis by (simp add: clamp_def ToNumber_def nullish_def)
qed

lemma clamp_amount_range:
  "v \<noteq> Some NaN \<Longrightarrow> 0 \<le> b \<Longrightarrow>
     \<exists>a. clamp (Some (nullish v (Num 0))) (Some (Num 0)) (Some (Num b)) = Num a
        \<and> 0 \<le> a \<and> a \<le> b"
proof (cases v)
  case None
  assume "0 \<le> b"
  with None show ?thesis by (simp add: clamp_def ToNumber_def nullish_def)
next
  case (Some x)
  assume "v \<noteq> Some NaN" "0 \<le> b"
  with Some obtain a where "x = Num a" by (cases x) auto
  with Some \<open>0 \<le> b\<close> show ?thesis by (simp add: clamp_def ToNumber_def nullish_def)
qed

text \<open>
  Claim C10 at a record saved with no extra percent entered (base price 100000,
  amount-mode discount 20000, label \<open>x\<close>): the record is created, its stored amount is
  20000, and its stored extra percent is \<open>NaN\<close>, not a value of \<open>[0, 100]\<close>.
\<close>

theorem stored_extra_is_NaN:
  "history (fst (saveHistory local_env (scenario_no_extra \<lparr> memo := str ''x'' \<rparr>)))
     = [newItem local_env (scenario_no_extra \<lparr> memo := str ''x'' \<rparr>)]
   \<and> h_baseDiscountAmount (newItem local_env (scenario_no_extra \<lparr> memo := str ''x'' \<rparr>))
       = Some (Num 20000)
   \<and> h_extra (newItem local_env (scenario_no_extra \<lparr> memo := str ''x'' \<rparr>)) = NaN"
proof -
  have t: "trim (str ''x'') \<noteq> []"
    by (simp add: trim_def str_def isWhiteSpace_def)
  then show ?thesis
    by (simp add: saveHistory_def Let_def newItem_def scenario_no_extra_def scenario_fields
        clamp_def ToNumber_def nullish_def)
qed

text \<open>
  The discount fields of a saved record in general. A saved record is the one \<open>newItem\<close>
  builds, and it stores only the active mode's discount field. In amount mode the stored percent is undefined and an
  amount is stored, which lies in \<open>[0, b]\<close> when the base price is a number \<open>b \<ge> 0\<close> and
  the amount entered is a number or missing. In percent mode the stored amount is
  undefined and a percent is stored, which lies in \<open>[0, 100]\<close> when the percent entered is
  a number or missing. The stored extra percent is the one entered clamped into
  \<open>[0, 100]\<close> when it is a number, and \<open>NaN\<close> when none was entered.
\<close>

theorem newItem_discount_fields:
  "(trim (memo s) \<noteq> [] \<longrightarrow> hd (history (fst (saveHistory e s))) = newItem e s)
   \<and> (discountMode s = Amount \<longrightarrow>
        h_baseDiscountPercent (newItem e s) = None
        \<and> (\<exists>v. h_baseDiscountAmount (newItem e s) = Some v)
        \<and> (basePrice s = Some (Num b) \<and> 0 \<le> b \<and> baseDiscountAmount s \<noteq> Some NaN \<longrightarrow>
             (\<exists>a. h_baseDiscountAmount (newItem e s) = Some (Num a) \<and> 0 \<le> a \<and> a \<le> b)))
   \<and> (discountMode s = Percent \<longrightarrow>
        h_baseDiscountAmount (newItem e s) = None
        \<and> (\<exists>v. h_baseDiscountPercent (newItem e s) = Some v)
        \<and> (baseDiscountPercent s \<noteq> Some NaN \<longrightarrow>
             (\<exists>p. h_baseDiscountPercent (newItem e s) = Some (Num p) \<and> 0 \<le> p \<and> p \<le> 100)))
   \<and> (extra s = Some (Num x) \<longrightarrow>
        h_extra (newItem e s) = Num (min 100 (max 0 x))
        \<and> 0 \<le> min 100 (max 0 x) \<and> min 100 (max 0 x) \<le> 100)
   \<and> (extra s = None \<longrightarrow> h_extra (newItem e s) = NaN)"
proof -
  have saved: "trim (memo s) \<noteq> [] \<longrightarrow> hd (history (fst (saveHistory e s))) = newItem e s"
    by (simp add: saveHistory_def Let_def)
  have amount: "h_baseDiscountPercent (newItem e s) = None
        \<and> (\<exists>v. h_baseDiscountAmount (newItem e s) = Some v)
        \<and> (basePrice s = Some (Num b) \<and> 0 \<le> b \<and> baseDiscountAmount s \<noteq> Some NaN \<longrightarrow>
             (\<exists>a. h_baseDiscountAmount (newItem e s) = Some (Num a) \<and> 0 \<le> a \<and> a \<le> b))"
    if "discountMode s = Amount"
    using that clamp_amount_range [of "baseDiscountAmount s" b]
    by (auto simp add: newItem_def)
  have percent: "h_baseDiscountAmount (newItem e s) = None
        \<and> (\<exists>v. h_baseDiscountPercent (newItem e s) = Some v)
        \<and> (baseDiscountPercent s \<noteq> Some NaN \<longrightarrow>
             (\<exists>p. h_baseDiscountPercent (newItem e s) = Some (Num p) \<and> 0 \<le> p \<and> p \<le> 100))"
    if "discountMode s = Percent"
    using that clamp_percent_range [of "baseDiscountPercent s"]
    by (auto simp add: newItem_def)
  have extra: "(extra s = Some (Num x) \<longrightarrow>
        h_extra (newItem e s) = Num (min 100 (max 0 x))
        \<and> 0 \<le> min 100 (max 0 x) \<and> min 100 (max 0 x) \<le> 100)
   \<and> (extra s = None \<longrightarrow> h_extra (newItem e s) = NaN)"
    by (simp add: newItem_def clamp_def ToNumber_def)
  from saved amount percent extra show ?thesis by blast
qed

theorem newItem_discount_fields_witness:
  "trim (memo (scenario \<lparr> memo := str ''x'' \<rparr>)) \<noteq> []
   \<and> hd (history (fst (saveHistory local_env (scenario \<lparr> memo := str ''x'' \<rparr>))))
       = newItem local_env (scenario \<lparr> memo := str ''x'' \<rparr>)
   \<and> discountMode (scenario \<lparr> memo := str ''x'' \<rparr>) = Amount
   \<and> basePrice (scenario \<lparr> memo := str ''x'' \<rparr>) = Some (Num 100000) \<and> (0::real) \<le> 100000
   \<and> baseDiscountAmount (scenario \<lparr> memo := str ''x'' \<rparr>) \<noteq> Some NaN
   \<and> h_baseDiscountPercent (newItem local_env (scenario \<lparr> memo := str ''x'' \<rparr>)) = None
   \<and> h_baseDiscountAmount (newItem local_env (scenario \<lparr> memo := str ''x'' \<rparr>))
       = Some (Num 20000)
   \<and> extra (scenario \<lparr> memo := str ''x'' \<rparr>) = Some (Num 10)
   \<and> h_extra (newItem local_env (scenario \<lparr> memo := str ''x'' \<rparr>)) = Num 10
   \<and> discountMode (scenario \<lparr> discountMode := Percent, baseDiscountPercent := Some (Num 250) \<rparr>)
       = Percent
   \<and> baseDiscountPercent
        (scenario \<lparr> discountMode := Percent, baseDiscountPercent := Some (Num 250) \<rparr>)
       \<noteq> Some NaN
   \<and> h_baseDiscountAmount (newItem local_env
        (scenario \<lparr> discountMode := Percent, baseDiscountPercent := Some (Num 250) \<rparr>)) = None
   \<and> h_baseDiscountPercent (newItem local_env
        (scenario \<lparr> discountMode := Percent, baseDiscountPercent := Some (Num 250) \<rparr>))
       = Some (Num 100)
   \<and> extra initial_state = None \<and> h_extra (newItem local_env initial_state) = NaN"
proof -
  have t: "trim (str ''x'') \<noteq> []"
    by (simp add: trim_def str_def isWhiteSpace_def)
  have a: "h_baseDiscountAmount (newItem local_env (scenario \<lparr> memo := str ''x'' \<rparr>))
       = Some (Num 20000)"
    by (simp add: newItem_def scenario_fields clamp_def ToNumber_def nullish_def)
  have p: "h_baseDiscountPercent (newItem local_env
        (scenario \<lparr> discountMode := Percent, baseDiscountPercent := Some (Num 250) \<rparr>))
       = Some (Num 100)"
    by (simp add: newItem_def scenario_fields clamp_def ToNumber_def nullish_def)
  from newItem_discount_fields [of "scenario \<lparr> memo := str ''x'' \<rparr>" local_env 100000 10]
    newItem_discount_fields
      [of "scenario \<lparr> discountMode := Percent, baseDiscountPercent := Some (Num 250) \<rparr>"
        local_env 100000 10]
    newItem_discount_fields [of initial_state local_env 0 0] t a p
  show ?thesis
    by (simp add: scenario_fields initial_state_def)
qed

section \<open>The store when it is not configured or fails\<close>

lemma supabase_absent: "url = None \<or> key = None \<Longrightarrow> supabase createClient url key = None"
  by (auto simp add: supabase_def split: option.splits)

text \<open>
  Claim C9. When the endpoint or the credential is absent there is no client, and insert,
  list and delete each return the "not configured" error and send no request to the
  store; the list returns the empty sequence with it. With a client, a list that the
  store answers with an error returns the empty sequence too, the error being a field of
  the result.
\<close>

theorem store_not_configured:
  "(url = None \<or> key = None \<longrightarrow>
      supabase createClient url key = None
      \<and> dbInsertHistory (supabase createClient url key) item = (Some NotConfigured, [])
      \<and> dbFetchHistory (supabase createClient url key) limit = (([], Some NotConfigured), [])
      \<and> dbDeleteHistory (supabase createClient url key) i = (Some NotConfigured, []))
   \<and> (snd (sb_select c limit) = Some x \<longrightarrow>
        dbFetchHistory (Some c) limit = (([], Some x), [Select limit]))
   \<and> dbFetchHistory None limit = (([], Some NotConfigured), [])"
proof -
  have absent: "supabase createClient url key = None
      \<and> dbInsertHistory (supabase createClient url key) item = (Some NotConfigured, [])
      \<and> dbFetchHistory (supabase createClient url key) limit = (([], Some NotConfigured), [])
      \<and> dbDeleteHistory (supabase createClient url key) i = (Some NotConfigured, [])"
    if "url = None \<or> key = None"
    using supabase_absent [OF that, of createClient]
    by (simp add: dbInsertHistory_def dbFetchHistory_def dbDeleteHistory_def)
  have failed: "snd (sb_select c limit) = Some x \<longrightarrow>
        dbFetchHistory (Some c) limit = (([], Some x), [Select limit])"
    by (cases "sb_select c limit") (simp add: dbFetchHistory_def)
  have none: "dbFetchHistory None limit = (([], Some NotConfigured), [])"
    by (simp add: dbFetchHistory_def)
  from absent failed none show ?thesis by blast
qed

theorem store_not_configured_witness:
  "((None :: jsstring option) = None \<or> Some (str ''key'') = None)
   \<and> dbInsertHistory (supabase (\<lambda>u k. stored_client) None (Some (str ''key'')))
        (mapped stored_row) = (Some NotConfigured, [])
   \<and> dbFetchHistory (supabase (\<lambda>u k. stored_client) None (Some (str ''key''))) 50
       = (([], Some NotConfigured), [])
   \<and> dbDeleteHistory (supabase (\<lambda>u k. stored_client) None (Some (str ''key'')))
        (str ''id-0'') = (Some NotConfigured, [])
   \<and> snd (sb_select failing_client 50) = Some (StoreError (str ''down''))
   \<and> dbFetchHistory (Some failing_client) 50
       = (([], Some (StoreError (str ''down''))), [Select 50])"
proof -
  have f: "snd (sb_select failing_client 50) = Some (StoreError (str ''down''))"
    by (simp add: failing_client_def)
  from store_not_configured
    [of None "Some (str ''key'')" "\<lambda>u k. stored_client" "mapped stored_row" 50 "str ''id-0''"
      failing_client "StoreError (str ''down'')"] f
  show ?thesis by (simp add: dbInsertHistory_def dbDeleteHistory_def)
qed

section \<open>What the code does where it departs from the specification\<close>

lemma orOne_nonzero: "orOne f \<noteq> Num 0 \<and> orOne f \<noteq> NaN"
  by (cases f) simp_all

lemma trim_x: "trim (str ''x'') = str ''x''"
  by (simp add: trim_def str_def isWhiteSpace_def)

lemma scenario_poizonNet: "poizonNet scenario = Some (Num 51000)"
  by (simp add: poizonNet_def poizonNetFromPrice_def scenario_fields)

lemma scenario_kreamNet: "kreamNet scenario = Some (Num 56640)"
  by (simp add: kreamNet_def kreamNetFromPrice_def scenario_fields)

text \<open>
  Claim C3 at the scenario with listing prices 65000 (Kream) and 66000 (Poizon), saved
  under the label \<open>x\<close>. The results card shows the Poizon margin \<open>net - final + tax\<close>,
  51000 - 72000 + 7200 = -13800; the history row of the record just saved shows
  \<open>net - final\<close>, -21000, and the percent of that. The Kream margin is -15360 in both.
\<close>

theorem history_row_poizon_margin:
  "poizonMarginCard (scenario \<lparr> memo := str ''x'' \<rparr>) = Some (Num (- 13800), Num (- 115 / 6))
   \<and> poizonMarginRow (hd (history (fst (saveHistory local_env (scenario \<lparr> memo := str ''x'' \<rparr>)))))
       = Some (Num (- 21000), Num (- 175 / 6))
   \<and> kreamMarginCard (scenario \<lparr> memo := str ''x'' \<rparr>) = Some (Num (- 15360), Num (- 64 / 3))
   \<and> kreamMarginRow (hd (history (fst (saveHistory local_env (scenario \<lparr> memo := str ''x'' \<rparr>)))))
       = Some (Num (- 15360), Num (- 64 / 3))"
proof -
  let ?s = "scenario \<lparr> memo := str ''x'' \<rparr>"
  have f: "final ?s = Num 72000" "refund10 ?s = Num 7200"
    "poizonNet ?s = Some (Num 51000)" "kreamNet ?s = Some (Num 56640)"
    using scenario_final scenario_poizonNet scenario_kreamNet
    by (simp_all add: final_def refund10_def simpleRefund10_def step2_def poizonNet_def
        kreamNet_def)
  have h: "hd (history (fst (saveHistory local_env ?s))) = newItem local_env ?s"
    by (simp add: saveHistory_def Let_def trim_x) (simp add: str_def)
  have n: "h_final (newItem local_env ?s) = Num 72000"
    "h_poizonNet (newItem local_env ?s) = Some (Num 51000)"
    "h_kreamNet (newItem local_env ?s) = Some (Num 56640)"
    using f by (simp_all add: newItem_def)
  show ?thesis
    by (simp add: poizonMarginCard_def kreamMarginCard_def poizonMarginRow_def
        kreamMarginRow_def f h n)
qed

text \<open>
  Claim C8 at a configured store that holds one row: reading the store would return that
  row, while the initial load sends no request and leaves the history list empty.
\<close>

theorem initial_load_reads_nothing:
  "client configured_env = Some stored_client
   \<and> fst (fst (dbFetchHistory (client configured_env) 100)) = [mapped stored_row]
   \<and> snd (initialLoad configured_env initial_state) = []
   \<and> history (fst (initialLoad configured_env initial_state)) = []
   \<and> fst (initialLoad configured_env initial_state) = initial_state"
  by (simp add: configured_env_def local_env_def initialLoad_def initial_state_def
      dbFetchHistory_def stored_client_def nullish_def)

end
